theory Spec2Isabelle
  imports Main "HOL-Library.Word"
begin

unbundle bit_operations_syntax

section \<open>UIPC: the channel multiplexer of system/udrv/ulinux/uipc.cc\<close>

text \<open>
  The file embeds \<^verbatim>\<open>uipc.cc\<close>: the channel table \<^verbatim>\<open>uipc_main\<close>, the
  helpers that run under the lock, the loop of the read task and the public
  \<^verbatim>\<open>UIPC_*\<close> calls. Every public call is one atomic transition of the state (the
  recursive mutex serialises them); the loop of the read task is cut where it does not hold
  the lock, so that calls of other threads can come between its steps. The lock itself
  does not appear.
  What the operating system answers (descriptors returned by \<^verbatim>\<open>socket\<close> and
  \<^verbatim>\<open>accept\<close>, results of \<^verbatim>\<open>poll\<close>, \<^verbatim>\<open>select\<close>,
  \<^verbatim>\<open>recv\<close>, \<^verbatim>\<open>write\<close>) is an argument of the function that asks.
\<close>

subsection \<open>Constants and types\<close>

type_synonym tUIPC_CH_ID = nat

text \<open>Modelled from the spec: the header \<^verbatim>\<open>uipc.h\<close> with the channel ids is not part
  of the sources at hand. The spec names two channels, a control channel and a data (audio)
  channel, and a sentinel for all channels that lies outside the table.\<close>

definition UIPC_CH_ID_AV_CTRL :: tUIPC_CH_ID where
  "UIPC_CH_ID_AV_CTRL = 0"

definition UIPC_CH_ID_AV_AUDIO :: tUIPC_CH_ID where
  "UIPC_CH_ID_AV_AUDIO = 1"

definition UIPC_CH_NUM :: nat where
  "UIPC_CH_NUM = 2"

definition UIPC_CH_ID_ALL :: tUIPC_CH_ID where
  "UIPC_CH_ID_ALL = 3"

definition UIPC_DISCONNECTED :: int where
  "UIPC_DISCONNECTED = - 1"

definition UIPC_TASK_FLAG_DISCONNECT_CHAN :: "32 word" where
  "UIPC_TASK_FLAG_DISCONNECT_CHAN = 1"

datatype tUIPC_EVENT =
    UIPC_OPEN_EVT
  | UIPC_CLOSE_EVT
  | UIPC_RX_DATA_EVT
  | UIPC_RX_DATA_READY_EVT
  | UIPC_TX_DATA_READY_EVT

text \<open>The request codes of \<^verbatim>\<open>UIPC_Ioctl\<close>. Their numbers are in the missing header;
  the switch only tells the four named codes from every other value.\<close>

datatype tUIPC_REQUEST =
    UIPC_REQ_RX_FLUSH
  | UIPC_REG_CBACK
  | UIPC_REG_REMOVE_ACTIVE_READSET
  | UIPC_SET_READ_POLL_TMO
  | UIPC_REQ_UNKNOWN "32 word"

text \<open>A callback is a function pointer; the null pointer is 0. Pointers are taken
  to be 64 bits wide.\<close>

type_synonym tUIPC_RCV_CBACK = "64 word"

record tUIPC_CHAN =
  srvfd :: int
  fd :: int
  read_poll_tmo_ms :: "32 word"
  task_evt_flags :: "32 word"
  cback :: tUIPC_RCV_CBACK

text \<open>
  \<^verbatim>\<open>tUIPC_MAIN\<close> without the mutex; \<open>tid\<close> is 0 while there is no read task. The
  last three fields are not in the struct: they record what the code does to the outside, so that it can be observed:
  \<^item> \<open>sig_queued\<close>: the bytes written to \<^verbatim>\<open>signal_fds[1]\<close> and not yet received
    from \<^verbatim>\<open>signal_fds[0]\<close>;
  \<^item> \<open>close_log\<close>: the descriptors passed to \<^verbatim>\<open>close\<close>, in order;
  \<^item> \<open>cb_log\<close>: the callback invocations, in order, as (callback, channel, event).
\<close>

record tUIPC_MAIN =
  tid :: nat
  running :: int
  active_set :: "int set"
  read_set :: "int set"
  max_fd :: int
  signal_fds :: "int \<times> int"
  ch :: "tUIPC_CHAN list"
  sig_queued :: nat
  close_log :: "int list"
  cb_log :: "(tUIPC_RCV_CBACK \<times> tUIPC_CH_ID \<times> tUIPC_EVENT) list"

text \<open>What goes wrong outside the C semantics of a returning call: an access
  \<^verbatim>\<open>uipc_main.ch[ch_id]\<close> outside the table (undefined behaviour), and a call that
  does not return with the answers of the operating system that were supplied.\<close>

datatype uipc_fault = OutOfBounds tUIPC_CH_ID | NoReturn

subsection \<open>Descriptor sets, callbacks, the wakeup socket pair\<close>

definition FD_SET :: "int \<Rightarrow> int set \<Rightarrow> int set" where
  "FD_SET d S = insert d S"

definition FD_CLR :: "int \<Rightarrow> int set \<Rightarrow> int set" where
  "FD_CLR d S = S - {d}"

definition SAFE_FD_ISSET :: "int \<Rightarrow> int set \<Rightarrow> bool" where
  "SAFE_FD_ISSET d S = (if d = - 1 then False else d \<in> S)"

definition MAX_fd :: "int \<Rightarrow> int \<Rightarrow> int" where
  "MAX_fd a b = (if a > b then a else b)"

definition ch_upd :: "tUIPC_CH_ID \<Rightarrow> (tUIPC_CHAN \<Rightarrow> tUIPC_CHAN) \<Rightarrow> tUIPC_MAIN \<Rightarrow> tUIPC_MAIN" where
  "ch_upd i f s = s\<lparr>ch := (ch s)[i := f (ch s ! i)]\<rparr>"

definition sys_close :: "int \<Rightarrow> tUIPC_MAIN \<Rightarrow> tUIPC_MAIN" where
  "sys_close d s = s\<lparr>close_log := close_log s @ [d]\<rparr>"

text \<open>\<^verbatim>\<open>if (uipc_main.ch[ch_id].cback) uipc_main.ch[ch_id].cback(ch_id, event)\<close>.
  What the callback itself does is outside this file; the call is recorded.\<close>

definition call_cback :: "tUIPC_CH_ID \<Rightarrow> tUIPC_EVENT \<Rightarrow> tUIPC_MAIN \<Rightarrow> tUIPC_MAIN" where
  "call_cback ch_id ev s =
     (if cback (ch s ! ch_id) \<noteq> 0
      then s\<lparr>cb_log := cb_log s @ [(cback (ch s ! ch_id), ch_id, ev)]\<rparr>
      else s)"

definition uipc_wakeup_locked :: "tUIPC_MAIN \<Rightarrow> tUIPC_MAIN" where
  "uipc_wakeup_locked s = s\<lparr>sig_queued := sig_queued s + 1\<rparr>"

text \<open>\<^verbatim>\<open>recv\<close> of one byte with \<^verbatim>\<open>MSG_WAITALL\<close>: it takes one byte off the queue,
  and with nothing queued it does not return.\<close>

definition uipc_check_interrupt_locked :: "tUIPC_MAIN \<Rightarrow> tUIPC_MAIN option" where
  "uipc_check_interrupt_locked s =
     (if SAFE_FD_ISSET (fst (signal_fds s)) (read_set s)
      then (if sig_queued s = 0 then None
            else Some (s\<lparr>sig_queued := sig_queued s - 1\<rparr>))
      else Some s)"

subsection \<open>Channel teardown\<close>

definition uipc_close_ch_locked :: "tUIPC_MAIN \<Rightarrow> tUIPC_CH_ID \<Rightarrow> tUIPC_MAIN \<times> int" where
  "uipc_close_ch_locked s ch_id =
     (if ch_id \<ge> UIPC_CH_NUM then (s, - 1)
      else
        let wakeup0 = False;
            (s1, wakeup1) =
              (if srvfd (ch s ! ch_id) \<noteq> UIPC_DISCONNECTED
               then (ch_upd ch_id (\<lambda>c. c\<lparr>srvfd := UIPC_DISCONNECTED\<rparr>)
                       ((sys_close (srvfd (ch s ! ch_id)) s)
                          \<lparr>active_set := FD_CLR (srvfd (ch s ! ch_id)) (active_set s)\<rparr>),
                     True)
               else (s, wakeup0));
            (s2, wakeup2) =
              (if fd (ch s1 ! ch_id) \<noteq> UIPC_DISCONNECTED
               then (ch_upd ch_id (\<lambda>c. c\<lparr>fd := UIPC_DISCONNECTED\<rparr>)
                       ((sys_close (fd (ch s1 ! ch_id)) s1)
                          \<lparr>active_set := FD_CLR (fd (ch s1 ! ch_id)) (active_set s1)\<rparr>),
                     True)
               else (s1, wakeup1));
            s3 = call_cback ch_id UIPC_CLOSE_EVT s2;
            s4 = (if wakeup2 then uipc_wakeup_locked s3 else s3)
        in (s4, 0))"

text \<open>\<^verbatim>\<open>uipc_close_locked\<close> has no range check of its own: with an id outside the
  table it reads \<^verbatim>\<open>uipc_main.ch[ch_id].srvfd\<close> all the same.\<close>

definition uipc_close_locked :: "tUIPC_MAIN \<Rightarrow> tUIPC_CH_ID \<Rightarrow> uipc_fault + tUIPC_MAIN" where
  "uipc_close_locked s ch_id =
     (if ch_id \<ge> UIPC_CH_NUM then Inl (OutOfBounds ch_id)
      else if srvfd (ch s ! ch_id) = UIPC_DISCONNECTED then Inr s
      else Inr (uipc_wakeup_locked
                  (ch_upd ch_id
                     (\<lambda>c. c\<lparr>task_evt_flags := task_evt_flags c OR UIPC_TASK_FLAG_DISCONNECT_CHAN\<rparr>) s)))"

subsection \<open>Socket helpers\<close>

text \<open>The two socket names come from \<^verbatim>\<open>audio_a2dp_hw.h\<close>; only their identity matters.\<close>

datatype sock_name = A2DP_CTRL_PATH | A2DP_DATA_PATH

text \<open>The answers to \<^verbatim>\<open>socket\<close>, \<^verbatim>\<open>osi_socket_local_server_bind\<close> and
  \<^verbatim>\<open>listen\<close> in \<^verbatim>\<open>create_server_socket\<close>.\<close>

record sock_env =
  socket_ret :: int
  bind_ret :: int
  listen_ret :: int

definition create_server_socket :: "tUIPC_MAIN \<Rightarrow> sock_name \<Rightarrow> sock_env \<Rightarrow> tUIPC_MAIN \<times> int" where
  "create_server_socket s name e =
     (if socket_ret e < 0 then (s, - 1)
      else if bind_ret e < 0 then (sys_close (socket_ret e) s, - 1)
      else if listen_ret e < 0 then (sys_close (socket_ret e) s, - 1)
      else (s, socket_ret e))"

text \<open>The answers to \<^verbatim>\<open>poll\<close> and \<^verbatim>\<open>accept\<close> in
  \<^verbatim>\<open>accept_server_socket\<close>; a failing \<^verbatim>\<open>setsockopt\<close> is only logged.\<close>

record accept_env =
  poll_ret :: int
  accept_ret :: int

definition accept_server_socket :: "int \<Rightarrow> accept_env \<Rightarrow> int" where
  "accept_server_socket sfd e =
     (if poll_ret e = 0 then - 1
      else if accept_ret e = - 1 then - 1
      else accept_ret e)"

subsection \<open>Initialisation and cleanup\<close>

text \<open>\<^verbatim>\<open>socketpair\<close> either fails (\<open>None\<close>) or returns the two descriptors.\<close>

definition uipc_main_init :: "(int \<times> int) option \<Rightarrow> tUIPC_MAIN \<times> int" where
  "uipc_main_init sp =
     (let s0 = \<lparr>tid = 0, running = 0, active_set = {}, read_set = {}, max_fd = 0, signal_fds = (0, 0),
                ch = replicate UIPC_CH_NUM
                       \<lparr>srvfd = 0, fd = 0, read_poll_tmo_ms = 0, task_evt_flags = 0, cback = 0\<rparr>,
                sig_queued = 0, close_log = [], cb_log = []\<rparr>
      in case sp of
           None \<Rightarrow> (s0, - 1)
         | Some p \<Rightarrow>
             (s0\<lparr>signal_fds := p,
                 active_set := FD_SET (fst p) (active_set s0),
                 max_fd := MAX_fd (max_fd s0) (fst p),
                 ch := map (\<lambda>c. c\<lparr>srvfd := UIPC_DISCONNECTED, fd := UIPC_DISCONNECTED,
                                   task_evt_flags := 0, cback := 0\<rparr>) (ch s0)\<rparr>,
              0))"

text \<open>\<^verbatim>\<open>uipc_main_cleanup\<close> closes both ends of the wakeup pair before it tears the
  channels down. The bytes that were queued are gone with the pair, and the wakeups of
  these teardowns are sent on a closed descriptor and fail: in the end nothing is queued.\<close>

definition uipc_main_cleanup :: "tUIPC_MAIN \<Rightarrow> tUIPC_MAIN" where
  "uipc_main_cleanup s =
     (foldl (\<lambda>t i. fst (uipc_close_ch_locked t i))
        (sys_close (snd (signal_fds s)) (sys_close (fst (signal_fds s)) s))
        [0..<UIPC_CH_NUM])
     \<lparr>sig_queued := 0\<rparr>"

subsection \<open>The read task\<close>

text \<open>The body of the loop of \<^verbatim>\<open>uipc_check_task_flags_locked\<close>, for channel \<open>i\<close>.\<close>

definition check_task_flags_ch :: "tUIPC_MAIN \<Rightarrow> tUIPC_CH_ID \<Rightarrow> tUIPC_MAIN" where
  "check_task_flags_ch t i =
     (if task_evt_flags (ch t ! i) AND UIPC_TASK_FLAG_DISCONNECT_CHAN \<noteq> 0
      then fst (uipc_close_ch_locked
                  (ch_upd i (\<lambda>c. c\<lparr>task_evt_flags :=
                                       task_evt_flags c AND NOT UIPC_TASK_FLAG_DISCONNECT_CHAN\<rparr>) t)
                  i)
      else t)"

definition uipc_check_task_flags_locked :: "tUIPC_MAIN \<Rightarrow> tUIPC_MAIN" where
  "uipc_check_task_flags_locked s = foldl check_task_flags_ch s [0..<UIPC_CH_NUM]"

definition uipc_check_fd_locked :: "tUIPC_MAIN \<Rightarrow> tUIPC_CH_ID \<Rightarrow> accept_env \<Rightarrow> tUIPC_MAIN \<times> int" where
  "uipc_check_fd_locked s ch_id e =
     (if ch_id \<ge> UIPC_CH_NUM then (s, - 1)
      else
        let rx = (\<lambda>t. if SAFE_FD_ISSET (fd (ch t ! ch_id)) (read_set t)
                       then call_cback ch_id UIPC_RX_DATA_READY_EVT t else t)
        in
        if SAFE_FD_ISSET (srvfd (ch s ! ch_id)) (read_set s)
        then
          let s1 = ch_upd ch_id (\<lambda>c. c\<lparr>fd := accept_server_socket (srvfd c) e\<rparr>) s;
              s2 = (if fd (ch s1 ! ch_id) > 0 \<and> cback (ch s1 ! ch_id) \<noteq> 0
                    then s1\<lparr>active_set := FD_SET (fd (ch s1 ! ch_id)) (active_set s1),
                            max_fd := MAX_fd (max_fd s1) (fd (ch s1 ! ch_id))\<rparr>
                    else s1)
          in if fd (ch s2 ! ch_id) < 0 then (s2, - 1)
             else (rx (call_cback ch_id UIPC_OPEN_EVT s2), 0)
        else (rx s, 0))"

text \<open>The answer of \<^verbatim>\<open>select\<close>: its result and the descriptors it reports ready.
  \<^verbatim>\<open>select\<close> leaves in \<^verbatim>\<open>read_set\<close> those members that are ready.\<close>

record select_env =
  select_ret :: int
  select_ready :: "int set"

text \<open>
  The loop of \<^verbatim>\<open>uipc_read_task\<close> in the steps between which other threads can run:
  \<^item> the copy of \<^verbatim>\<open>active_set\<close> into \<^verbatim>\<open>read_set\<close>, taken without the lock;
  \<^item> \<^verbatim>\<open>select\<close>, which leaves in \<^verbatim>\<open>read_set\<close> the descriptors that are
    ready; with a result of 0 or below the loop starts over;
  \<^item> the body under the lock. \<open>None\<close>: it does not end, because the receive on the
    wakeup socket finds nothing queued.
\<close>

definition uipc_read_task_snapshot :: "tUIPC_MAIN \<Rightarrow> tUIPC_MAIN" where
  "uipc_read_task_snapshot s = s\<lparr>read_set := active_set s\<rparr>"

definition uipc_read_task_select :: "tUIPC_MAIN \<Rightarrow> select_env \<Rightarrow> tUIPC_MAIN" where
  "uipc_read_task_select s sel = s\<lparr>read_set := read_set s \<inter> select_ready sel\<rparr>"

definition uipc_read_task_locked ::
  "tUIPC_MAIN \<Rightarrow> (tUIPC_CH_ID \<Rightarrow> accept_env) \<Rightarrow> tUIPC_MAIN option" where
  "uipc_read_task_locked s acc =
     (case uipc_check_interrupt_locked s of
        None \<Rightarrow> None
      | Some s1 \<Rightarrow>
          let s2 = uipc_check_task_flags_locked s1;
              s3 = fst (uipc_check_fd_locked s2 UIPC_CH_ID_AV_AUDIO (acc UIPC_CH_ID_AV_AUDIO))
          in Some (foldl (\<lambda>t ch_id.
                            if ch_id \<noteq> UIPC_CH_ID_AV_AUDIO
                            then fst (uipc_check_fd_locked t ch_id (acc ch_id)) else t)
                     s3 [0..<UIPC_CH_NUM]))"

text \<open>One turn of the loop during which no other thread touches the state.\<close>

definition uipc_read_task_iter ::
  "tUIPC_MAIN \<Rightarrow> select_env \<Rightarrow> (tUIPC_CH_ID \<Rightarrow> accept_env) \<Rightarrow> tUIPC_MAIN option" where
  "uipc_read_task_iter s sel acc =
     (let s0 = uipc_read_task_select (uipc_read_task_snapshot s) sel
      in if select_ret sel = 0 then Some s0
         else if select_ret sel < 0 then Some s0
         else uipc_read_task_locked s0 acc)"

text \<open>The end of \<^verbatim>\<open>uipc_read_task\<close>, once \<^verbatim>\<open>uipc_main.running\<close> is found
  to be 0.\<close>

definition uipc_read_task_exit :: "tUIPC_MAIN \<Rightarrow> tUIPC_MAIN" where
  "uipc_read_task_exit s = (uipc_main_cleanup s)\<lparr>tid := 0\<rparr>"

text \<open>The answer of \<^verbatim>\<open>pthread_create\<close>: its result, and the id of the new thread,
  which it stores when the result is 0. An id is not 0.\<close>

record thread_env =
  create_ret :: int
  create_tid :: nat

definition uipc_start_main_server_thread :: "tUIPC_MAIN \<Rightarrow> thread_env \<Rightarrow> tUIPC_MAIN \<times> int" where
  "uipc_start_main_server_thread s e =
     (let s1 = s\<lparr>running := 1\<rparr>;
          s2 = (if create_ret e = 0 then s1\<lparr>tid := create_tid e\<rparr> else s1)
      in if create_ret e < 0 then (s2, - 1) else (s2, 0))"

text \<open>
  Where the read task stands when the stop is requested, with the answers of the operating
  system to what it still does: it is about to test \<^verbatim>\<open>uipc_main.running\<close>; it has
  passed the test and is about to copy the active set; it is in \<^verbatim>\<open>select\<close>; or
  \<^verbatim>\<open>select\<close> has returned with something ready and it waits for the lock. The two
  \<open>accept_env\<close> answer the accept on the control channel and on the audio channel.
\<close>

datatype join_env =
    JoinAtLoopTest
  | JoinAtSnapshot select_env accept_env accept_env
  | JoinInSelect select_env accept_env accept_env
  | JoinAtLock accept_env accept_env

definition accept_for :: "accept_env \<Rightarrow> accept_env \<Rightarrow> tUIPC_CH_ID \<Rightarrow> accept_env" where
  "accept_for ec ea i = (if i = UIPC_CH_ID_AV_AUDIO then ea else ec)"

text \<open>What is left of \<^verbatim>\<open>uipc_read_task\<close> from there, with
  \<^verbatim>\<open>uipc_main.running\<close> at 0: at most one more turn, then the exit.\<close>

definition uipc_read_task_last_turn ::
  "tUIPC_MAIN \<Rightarrow> select_env \<Rightarrow> accept_env \<Rightarrow> accept_env \<Rightarrow> tUIPC_MAIN option" where
  "uipc_read_task_last_turn s sel ec ea =
     (let s0 = uipc_read_task_select s sel
      in if select_ret sel = 0 then Some (uipc_read_task_exit s0)
         else if select_ret sel < 0 then Some (uipc_read_task_exit s0)
         else map_option uipc_read_task_exit (uipc_read_task_locked s0 (accept_for ec ea)))"

fun uipc_read_task_rest :: "tUIPC_MAIN \<Rightarrow> join_env \<Rightarrow> tUIPC_MAIN option" where
  "uipc_read_task_rest s JoinAtLoopTest = Some (uipc_read_task_exit s)"
| "uipc_read_task_rest s (JoinAtSnapshot sel ec ea) =
     uipc_read_task_last_turn (uipc_read_task_snapshot s) sel ec ea"
| "uipc_read_task_rest s (JoinInSelect sel ec ea) = uipc_read_task_last_turn s sel ec ea"
| "uipc_read_task_rest s (JoinAtLock ec ea) =
     map_option uipc_read_task_exit (uipc_read_task_locked s (accept_for ec ea))"

text \<open>\<^verbatim>\<open>uipc_stop_main_server_thread\<close> clears \<^verbatim>\<open>uipc_main.running\<close>, wakes the
  read task and, if there is one, returns when it has come to its end.\<close>

definition uipc_stop_main_server_thread :: "tUIPC_MAIN \<Rightarrow> join_env \<Rightarrow> tUIPC_MAIN option" where
  "uipc_stop_main_server_thread s j =
     (let s1 = uipc_wakeup_locked (s\<lparr>running := 0\<rparr>)
      in if tid s1 \<noteq> 0 then uipc_read_task_rest s1 j else Some s1)"

subsection \<open>Opening a channel\<close>

text \<open>\<open>tmo\<close> stands for \<^verbatim>\<open>DEFAULT_READ_POLL_TMO_MS\<close>, a constant of the missing header.\<close>

definition uipc_setup_server_locked ::
  "tUIPC_MAIN \<Rightarrow> tUIPC_CH_ID \<Rightarrow> sock_name \<Rightarrow> tUIPC_RCV_CBACK \<Rightarrow> 32 word \<Rightarrow> sock_env
     \<Rightarrow> tUIPC_MAIN \<times> int" where
  "uipc_setup_server_locked s ch_id name cb tmo e =
     (if ch_id \<ge> UIPC_CH_NUM then (s, - 1)
      else
        let (s1, d) = create_server_socket s name e
        in if d < 0 then (s1, - 1)
           else
             (uipc_wakeup_locked
                (ch_upd ch_id (\<lambda>c. c\<lparr>srvfd := d, cback := cb, read_poll_tmo_ms := tmo\<rparr>)
                   (s1\<lparr>active_set := FD_SET d (active_set s1),
                       max_fd := MAX_fd (max_fd s1) d\<rparr>)),
              0))"

definition UIPC_Init :: "(int \<times> int) option \<Rightarrow> thread_env \<Rightarrow> tUIPC_MAIN" where
  "UIPC_Init sp th = fst (uipc_start_main_server_thread (fst (uipc_main_init sp)) th)"

definition UIPC_Open ::
  "tUIPC_MAIN \<Rightarrow> tUIPC_CH_ID \<Rightarrow> tUIPC_RCV_CBACK \<Rightarrow> 32 word \<Rightarrow> sock_env \<Rightarrow> tUIPC_MAIN \<times> bool" where
  "UIPC_Open s ch_id p_cback tmo e =
     (if ch_id \<ge> UIPC_CH_NUM then (s, False)
      else if srvfd (ch s ! ch_id) \<noteq> UIPC_DISCONNECTED then (s, False)
      else if ch_id = UIPC_CH_ID_AV_CTRL
           then (fst (uipc_setup_server_locked s ch_id A2DP_CTRL_PATH p_cback tmo e), True)
      else if ch_id = UIPC_CH_ID_AV_AUDIO
           then (fst (uipc_setup_server_locked s ch_id A2DP_DATA_PATH p_cback tmo e), True)
      else (s, True))"

subsection \<open>Closing, sending, reading\<close>

text \<open>\<open>j\<close> is only used by the shutdown.\<close>

definition UIPC_Close :: "tUIPC_MAIN \<Rightarrow> tUIPC_CH_ID \<Rightarrow> join_env \<Rightarrow> uipc_fault + tUIPC_MAIN" where
  "UIPC_Close s ch_id j =
     (if ch_id \<noteq> UIPC_CH_ID_ALL then uipc_close_locked s ch_id
      else case uipc_stop_main_server_thread s j of
             None \<Rightarrow> Inl NoReturn
           | Some s' \<Rightarrow> Inr s')"

text \<open>\<open>wr\<close> is what \<^verbatim>\<open>write\<close> returns; the result of \<^verbatim>\<open>UIPC_Send\<close> does
  not depend on it. The channel is read without a range check.\<close>

definition UIPC_Send ::
  "tUIPC_MAIN \<Rightarrow> tUIPC_CH_ID \<Rightarrow> 16 word \<Rightarrow> 8 word list \<Rightarrow> 16 word \<Rightarrow> int
     \<Rightarrow> uipc_fault + (tUIPC_MAIN \<times> bool)" where
  "UIPC_Send s ch_id msg_evt p_buf msglen wr =
     (if ch_id \<ge> UIPC_CH_NUM then Inl (OutOfBounds ch_id)
      else let ret = wr in Inr (s, False))"

text \<open>
  One element for each turn of the loop of \<^verbatim>\<open>UIPC_Read\<close>: \<^verbatim>\<open>poll\<close> returns 0,
  \<^verbatim>\<open>poll\<close> fails, \<^verbatim>\<open>poll\<close> reports \<^verbatim>\<open>POLLHUP\<close> or \<^verbatim>\<open>POLLNVAL\<close>,
  \<^verbatim>\<open>recv\<close> fails, or \<^verbatim>\<open>recv\<close> has the given bytes at hand, of which it
  delivers at most as many as were asked for (none at hand: it returns 0).
\<close>

datatype rd_step = RdPollTimeout | RdPollFail | RdPollHup | RdRecvFail | RdRecv "8 word list"

text \<open>The loop, with \<open>n_read\<close> and the bytes stored in \<^verbatim>\<open>p_buf\<close> so far. With no
  answer left for a \<^verbatim>\<open>poll\<close> the call has not returned.\<close>

fun uipc_read_loop ::
  "tUIPC_MAIN \<Rightarrow> tUIPC_CH_ID \<Rightarrow> 32 word \<Rightarrow> int \<Rightarrow> 8 word list \<Rightarrow> rd_step list
     \<Rightarrow> uipc_fault + (tUIPC_MAIN \<times> 32 word \<times> 8 word list)" where
  "uipc_read_loop s ch_id len n_read buf script =
     (if \<not> n_read < sint len then Inr (s, word_of_int n_read, buf)
      else
        case script of
          [] \<Rightarrow> Inl NoReturn
        | RdPollTimeout # rest \<Rightarrow> Inr (s, word_of_int n_read, buf)
        | RdPollFail # rest \<Rightarrow> Inr (s, word_of_int n_read, buf)
        | RdPollHup # rest \<Rightarrow>
            (case uipc_close_locked s ch_id of
               Inl f \<Rightarrow> Inl f
             | Inr s' \<Rightarrow> Inr (s', 0, buf))
        | RdRecvFail # rest \<Rightarrow> Inr (s, 0, buf)
        | RdRecv bs # rest \<Rightarrow>
            (let got = take (unat (len - word_of_int n_read)) bs;
                 n = int (length got)
             in if n = 0
                then (case uipc_close_locked s ch_id of
                        Inl f \<Rightarrow> Inl f
                      | Inr s' \<Rightarrow> Inr (s', 0, buf @ got))
                else uipc_read_loop s ch_id len (n_read + n) (buf @ got) rest))"

declare uipc_read_loop.simps [simp del]

text \<open>\<^verbatim>\<open>UIPC_Read\<close> initialises \<^verbatim>\<open>fd\<close> from the table before it checks the id.\<close>

definition UIPC_Read ::
  "tUIPC_MAIN \<Rightarrow> tUIPC_CH_ID \<Rightarrow> 32 word \<Rightarrow> rd_step list
     \<Rightarrow> uipc_fault + (tUIPC_MAIN \<times> 32 word \<times> 8 word list)" where
  "UIPC_Read s ch_id len script =
     (if ch_id \<ge> UIPC_CH_NUM then Inl (OutOfBounds ch_id)
      else if fd (ch s ! ch_id) = UIPC_DISCONNECTED then Inr (s, 0, [])
      else uipc_read_loop s ch_id len 0 [] script)"

subsection \<open>Flush and ioctl\<close>

text \<open>One element for each turn of the loop of \<^verbatim>\<open>uipc_flush_ch_locked\<close>:
  \<^verbatim>\<open>poll\<close> returns 0, fails, reports \<^verbatim>\<open>POLLERR\<close> or \<^verbatim>\<open>POLLHUP\<close>, or
  there is data and a buffer is read and dropped. The result counts the reads.\<close>

datatype flush_step = FlPollTimeout | FlPollFail | FlPollErrHup | FlRead

fun uipc_flush_loop :: "flush_step list \<Rightarrow> nat option" where
  "uipc_flush_loop [] = None"
| "uipc_flush_loop (FlPollTimeout # rest) = Some 0"
| "uipc_flush_loop (FlPollFail # rest) = Some 0"
| "uipc_flush_loop (FlPollErrHup # rest) = Some 0"
| "uipc_flush_loop (FlRead # rest) = map_option Suc (uipc_flush_loop rest)"

definition uipc_flush_ch_locked :: "tUIPC_MAIN \<Rightarrow> tUIPC_CH_ID \<Rightarrow> flush_step list \<Rightarrow> nat option" where
  "uipc_flush_ch_locked s ch_id script =
     (if fd (ch s ! ch_id) = UIPC_DISCONNECTED then Some 0 else uipc_flush_loop script)"

definition uipc_flush_locked :: "tUIPC_MAIN \<Rightarrow> tUIPC_CH_ID \<Rightarrow> flush_step list \<Rightarrow> nat option" where
  "uipc_flush_locked s ch_id script =
     (if ch_id \<ge> UIPC_CH_NUM then Some 0
      else if ch_id = UIPC_CH_ID_AV_CTRL then uipc_flush_ch_locked s UIPC_CH_ID_AV_CTRL script
      else if ch_id = UIPC_CH_ID_AV_AUDIO then uipc_flush_ch_locked s UIPC_CH_ID_AV_AUDIO script
      else Some 0)"

text \<open>\<open>param\<close> is the \<^verbatim>\<open>void*\<close> argument: a callback pointer for
  \<^verbatim>\<open>UIPC_REG_CBACK\<close>, an integer for \<^verbatim>\<open>UIPC_SET_READ_POLL_TMO\<close>.
  Only the flush branch checks the id.\<close>

definition UIPC_Ioctl ::
  "tUIPC_MAIN \<Rightarrow> tUIPC_CH_ID \<Rightarrow> tUIPC_REQUEST \<Rightarrow> 64 word \<Rightarrow> flush_step list
     \<Rightarrow> uipc_fault + (tUIPC_MAIN \<times> bool)" where
  "UIPC_Ioctl s ch_id request param script =
     (case request of
        UIPC_REQ_RX_FLUSH \<Rightarrow>
          (case uipc_flush_locked s ch_id script of
             None \<Rightarrow> Inl NoReturn
           | Some k \<Rightarrow> Inr (s, False))
      | UIPC_REG_CBACK \<Rightarrow>
          (if ch_id \<ge> UIPC_CH_NUM then Inl (OutOfBounds ch_id)
           else Inr (ch_upd ch_id (\<lambda>c. c\<lparr>cback := param\<rparr>) s, False))
      | UIPC_REG_REMOVE_ACTIVE_READSET \<Rightarrow>
          (if ch_id \<ge> UIPC_CH_NUM then Inl (OutOfBounds ch_id)
           else if fd (ch s ! ch_id) \<noteq> UIPC_DISCONNECTED
                then Inr (uipc_wakeup_locked
                            (s\<lparr>active_set := FD_CLR (fd (ch s ! ch_id)) (active_set s)\<rparr>), False)
                else Inr (s, False))
      | UIPC_SET_READ_POLL_TMO \<Rightarrow>
          (if ch_id \<ge> UIPC_CH_NUM then Inl (OutOfBounds ch_id)
           else Inr (ch_upd ch_id (\<lambda>c. c\<lparr>read_poll_tmo_ms := ucast param\<rparr>) s, False))
      | UIPC_REQ_UNKNOWN r \<Rightarrow> Inr (s, False))"

subsection \<open>Auxiliary notions for the properties\<close>

text \<open>The endpoints of a channel that are present, server first, and the Close event
  that its callback, if there is one, receives.\<close>

definition present_fds :: "tUIPC_CHAN \<Rightarrow> int list" where
  "present_fds c = filter (\<lambda>d. d \<noteq> UIPC_DISCONNECTED) [srvfd c, fd c]"

definition close_evt ::
  "tUIPC_CHAN \<Rightarrow> tUIPC_CH_ID \<Rightarrow> (tUIPC_RCV_CBACK \<times> tUIPC_CH_ID \<times> tUIPC_EVENT) list" where
  "close_evt c ch_id = (if cback c \<noteq> 0 then [(cback c, ch_id, UIPC_CLOSE_EVT)] else [])"

text \<open>A run used for the concrete instances: the multiplexer is started with the wakeup
  pair (3, 4) and the read task 1; the control channel is opened with callback 7 and gets the listening
  socket 5; then it is torn down.\<close>

definition ok_sock :: "int \<Rightarrow> sock_env" where
  "ok_sock d = \<lparr>socket_ret = d, bind_ret = 0, listen_ret = 0\<rparr>"

definition ok_thread :: "nat \<Rightarrow> thread_env" where
  "ok_thread t = \<lparr>create_ret = 0, create_tid = t\<rparr>"

definition st_started :: tUIPC_MAIN where
  "st_started = UIPC_Init (Some (3, 4)) (ok_thread 1)"

definition st_listening :: tUIPC_MAIN where
  "st_listening = fst (UIPC_Open st_started UIPC_CH_ID_AV_CTRL 7 100 (ok_sock 5))"

definition st_closed :: tUIPC_MAIN where
  "st_closed = fst (uipc_close_ch_locked st_listening UIPC_CH_ID_AV_CTRL)"

text \<open>The run continued: a peer connects to the control channel and is accepted as
  descriptor 6.\<close>

definition st_connected :: tUIPC_MAIN where
  "st_connected =
     \<lparr>tid = 1, running = 1, active_set = {6, 3, 5}, read_set = {3, 5}, max_fd = 6, signal_fds = (3, 4),
      ch = [\<lparr>srvfd = 5, fd = 6, read_poll_tmo_ms = 100, task_evt_flags = 0, cback = 7\<rparr>,
            \<lparr>srvfd = - 1, fd = - 1, read_poll_tmo_ms = 0, task_evt_flags = 0, cback = 0\<rparr>],
      sig_queued = 0, close_log = [], cb_log = [(7, 0, UIPC_OPEN_EVT)]\<rparr>"

text \<open>Another run: both channels are opened one after the other before the read task
  wakes up, so that two wakeup bytes are queued.\<close>

definition st_both_listening :: tUIPC_MAIN where
  "st_both_listening = fst (UIPC_Open st_listening UIPC_CH_ID_AV_AUDIO 8 100 (ok_sock 9))"

text \<open>The state in which \<^verbatim>\<open>UIPC_Read\<close> leaves the connected control channel of
  the run when the peer has hung up.\<close>

definition st_hangup :: tUIPC_MAIN where
  "st_hangup =
     \<lparr>tid = 1, running = 1, active_set = {6, 3, 5}, read_set = {3, 5}, max_fd = 6, signal_fds = (3, 4),
      ch = [\<lparr>srvfd = 5, fd = 6, read_poll_tmo_ms = 100, task_evt_flags = 1, cback = 7\<rparr>,
            \<lparr>srvfd = - 1, fd = - 1, read_poll_tmo_ms = 0, task_evt_flags = 0, cback = 0\<rparr>],
      sig_queued = 1, close_log = [], cb_log = [(7, 0, UIPC_OPEN_EVT)]\<rparr>"

text \<open>What \<^verbatim>\<open>uipc_close_locked\<close> does to a channel of the table: nothing without a
  server endpoint, else it sets the disconnect flag and writes a wakeup byte.\<close>

definition schedule_close :: "tUIPC_MAIN \<Rightarrow> tUIPC_CH_ID \<Rightarrow> tUIPC_MAIN" where
  "schedule_close s ch_id =
     (if srvfd (ch s ! ch_id) = UIPC_DISCONNECTED then s
      else s\<lparr>ch := (ch s)[ch_id := (ch s ! ch_id)
                        \<lparr>task_evt_flags := task_evt_flags (ch s ! ch_id)
                                             OR UIPC_TASK_FLAG_DISCONNECT_CHAN\<rparr>],
             sig_queued := sig_queued s + 1\<rparr>)"


































section \<open>Properties\<close>

subsection \<open>The concrete run\<close>

lemmas uipc_consts =
  UIPC_CH_NUM_def UIPC_CH_ID_AV_CTRL_def UIPC_CH_ID_AV_AUDIO_def UIPC_CH_ID_ALL_def
  UIPC_DISCONNECTED_def UIPC_TASK_FLAG_DISCONNECT_CHAN_def

lemma st_started_eq:
  "st_started =
     \<lparr>tid = 1, running = 1, active_set = {3}, read_set = {}, max_fd = 3, signal_fds = (3, 4),
      ch = [\<lparr>srvfd = - 1, fd = - 1, read_poll_tmo_ms = 0, task_evt_flags = 0, cback = 0\<rparr>,
            \<lparr>srvfd = - 1, fd = - 1, read_poll_tmo_ms = 0, task_evt_flags = 0, cback = 0\<rparr>],
      sig_queued = 0, close_log = [], cb_log = []\<rparr>"
  by (simp add: st_started_def UIPC_Init_def uipc_main_init_def uipc_start_main_server_thread_def
      ok_thread_def
      FD_SET_def MAX_fd_def uipc_consts numeral_2_eq_2)

lemma st_listening_eq:
  "st_listening =
     \<lparr>tid = 1, running = 1, active_set = {3, 5}, read_set = {}, max_fd = 5, signal_fds = (3, 4),
      ch = [\<lparr>srvfd = 5, fd = - 1, read_poll_tmo_ms = 100, task_evt_flags = 0, cback = 7\<rparr>,
            \<lparr>srvfd = - 1, fd = - 1, read_poll_tmo_ms = 0, task_evt_flags = 0, cback = 0\<rparr>],
      sig_queued = 1, close_log = [], cb_log = []\<rparr>"
  by (simp add: st_listening_def st_started_eq UIPC_Open_def uipc_setup_server_locked_def
      create_server_socket_def ok_sock_def ch_upd_def uipc_wakeup_locked_def
      FD_SET_def MAX_fd_def uipc_consts insert_commute)

subsection \<open>Teardown\<close>

lemmas close_ch_defs =
  uipc_close_ch_locked_def ch_upd_def sys_close_def call_cback_def
  uipc_wakeup_locked_def FD_CLR_def present_fds_def close_evt_def Let_def

text \<open>The teardown in closed form.\<close>

lemma close_ch_eq:
  assumes "ch_id < UIPC_CH_NUM" "length (ch s) = UIPC_CH_NUM"
  shows "uipc_close_ch_locked s ch_id =
    (s\<lparr>active_set := active_set s - set (present_fds (ch s ! ch_id)),
       ch := (ch s)[ch_id := (ch s ! ch_id)\<lparr>srvfd := UIPC_DISCONNECTED, fd := UIPC_DISCONNECTED\<rparr>],
       sig_queued := sig_queued s + (if present_fds (ch s ! ch_id) = [] then 0 else 1),
       close_log := close_log s @ present_fds (ch s ! ch_id),
       cb_log := cb_log s @ close_evt (ch s ! ch_id) ch_id\<rparr>, 0)"
proof -
  have a: "srvfd c = UIPC_DISCONNECTED \<Longrightarrow> c\<lparr>srvfd := UIPC_DISCONNECTED\<rparr> = c"
    for c :: tUIPC_CHAN
    by simp
  have b: "fd c = UIPC_DISCONNECTED \<Longrightarrow> c\<lparr>fd := UIPC_DISCONNECTED\<rparr> = c"
    for c :: tUIPC_CHAN
    by simp
  show ?thesis
    using assms
    by (cases "srvfd (ch s ! ch_id) = UIPC_DISCONNECTED";
        cases "fd (ch s ! ch_id) = UIPC_DISCONNECTED")
       (auto simp: close_ch_defs a b intro!: tUIPC_MAIN.equality)
qed

lemma st_closed_eq:
  "st_closed =
     \<lparr>tid = 1, running = 1, active_set = {3}, read_set = {}, max_fd = 5, signal_fds = (3, 4),
      ch = [\<lparr>srvfd = - 1, fd = - 1, read_poll_tmo_ms = 100, task_evt_flags = 0, cback = 7\<rparr>,
            \<lparr>srvfd = - 1, fd = - 1, read_poll_tmo_ms = 0, task_evt_flags = 0, cback = 0\<rparr>],
      sig_queued = 2, close_log = [5], cb_log = [(7, 0, UIPC_CLOSE_EVT)]\<rparr>"
  by (simp add: st_closed_def st_listening_eq close_ch_defs uipc_consts insert_Diff_if)

text \<open>
  C1, as the code has it. For a channel of the table, \<^verbatim>\<open>uipc_close_ch_locked\<close>
  returns 0 and leaves both endpoints absent; it closes exactly the endpoints that were
  present (server first) and removes them from the active set; it writes one byte to the
  wakeup socket if and only if it closed an endpoint; and it calls the callback with the
  Close event whenever a callback is registered, whether or not an endpoint was closed.
  A second teardown right after the first returns 0 again and changes nothing, except that
  a registered callback receives the Close event once more.
\<close>

theorem close_ch_locked_teardown:
  assumes "ch_id < UIPC_CH_NUM" and "length (ch s) = UIPC_CH_NUM"
  shows "(let c = ch s ! ch_id;
              s' = fst (uipc_close_ch_locked s ch_id);
              s'' = fst (uipc_close_ch_locked s' ch_id)
          in snd (uipc_close_ch_locked s ch_id) = 0
           \<and> srvfd (ch s' ! ch_id) = UIPC_DISCONNECTED
           \<and> fd (ch s' ! ch_id) = UIPC_DISCONNECTED
           \<and> close_log s' = close_log s @ present_fds c
           \<and> active_set s' = active_set s - set (present_fds c)
           \<and> sig_queued s' = sig_queued s + (if present_fds c = [] then 0 else 1)
           \<and> cb_log s' = cb_log s @ close_evt c ch_id
           \<and> snd (uipc_close_ch_locked s' ch_id) = 0
           \<and> s'' = s'\<lparr>cb_log := cb_log s' @ close_evt c ch_id\<rparr>)"
proof -
  define s' where "s' = fst (uipc_close_ch_locked s ch_id)"
  have len': "length (ch s') = UIPC_CH_NUM"
    using assms by (simp add: s'_def close_ch_eq)
  have first: "uipc_close_ch_locked s ch_id = (s', 0)"
    using assms by (simp add: s'_def close_ch_eq)
  have gone: "srvfd (ch s' ! ch_id) = UIPC_DISCONNECTED" "fd (ch s' ! ch_id) = UIPC_DISCONNECTED"
    and same_cb: "cback (ch s' ! ch_id) = cback (ch s ! ch_id)"
    using assms by (simp_all add: s'_def close_ch_eq)
  have none: "present_fds (ch s' ! ch_id) = []"
    using gone by (simp add: present_fds_def)
  have evt: "close_evt (ch s' ! ch_id) ch_id = close_evt (ch s ! ch_id) ch_id"
    using same_cb by (simp add: close_evt_def)
  have chan: "(ch s' ! ch_id)\<lparr>srvfd := UIPC_DISCONNECTED, fd := UIPC_DISCONNECTED\<rparr> = ch s' ! ch_id"
    using gone by simp
  have second: "uipc_close_ch_locked s' ch_id =
      (s'\<lparr>cb_log := cb_log s' @ close_evt (ch s ! ch_id) ch_id\<rparr>, 0)"
    unfolding close_ch_eq [OF assms(1) len'] none evt chan
    by simp
  show ?thesis
    unfolding Let_def s'_def [symmetric] second
    using assms by (simp add: s'_def close_ch_eq)
qed

theorem close_ch_locked_teardown_witness:
  "UIPC_CH_ID_AV_CTRL < UIPC_CH_NUM \<and> length (ch st_listening) = UIPC_CH_NUM
   \<and> snd (uipc_close_ch_locked st_listening UIPC_CH_ID_AV_CTRL) = 0
   \<and> close_log st_closed = [5]
   \<and> active_set st_closed = {3}
   \<and> sig_queued st_closed = sig_queued st_listening + 1
   \<and> cb_log st_closed = [(7, UIPC_CH_ID_AV_CTRL, UIPC_CLOSE_EVT)]
   \<and> fst (uipc_close_ch_locked st_closed UIPC_CH_ID_AV_CTRL) =
       st_closed\<lparr>cb_log := [(7, UIPC_CH_ID_AV_CTRL, UIPC_CLOSE_EVT),
                            (7, UIPC_CH_ID_AV_CTRL, UIPC_CLOSE_EVT)]\<rparr>"
proof -
  have h1: "UIPC_CH_ID_AV_CTRL < UIPC_CH_NUM"
    by (simp add: uipc_consts)
  have h2: "length (ch st_listening) = UIPC_CH_NUM"
    by (simp add: st_listening_eq uipc_consts)
  have c: "ch st_listening ! UIPC_CH_ID_AV_CTRL =
      \<lparr>srvfd = 5, fd = - 1, read_poll_tmo_ms = 100, task_evt_flags = 0, cback = 7\<rparr>"
    by (simp add: st_listening_eq uipc_consts)
  show ?thesis
    using h1 h2 close_ch_locked_teardown [OF h1 h2]
    unfolding Let_def st_closed_def [symmetric] c
    by (simp add: close_ch_defs uipc_consts st_listening_eq st_closed_eq insert_Diff_if)
qed

text \<open>C1 as stated fails: torn down a second time, the closed control channel of the
  run has its callback called with the Close event again.\<close>

theorem close_ch_locked_closed_channel_event:
  "srvfd (ch st_closed ! UIPC_CH_ID_AV_CTRL) = UIPC_DISCONNECTED
   \<and> fd (ch st_closed ! UIPC_CH_ID_AV_CTRL) = UIPC_DISCONNECTED
   \<and> uipc_close_ch_locked st_closed UIPC_CH_ID_AV_CTRL =
       (st_closed\<lparr>cb_log := cb_log st_closed @ [(7, UIPC_CH_ID_AV_CTRL, UIPC_CLOSE_EVT)]\<rparr>, 0)"
  by (simp add: st_closed_eq close_ch_defs uipc_consts)

subsection \<open>The loops over the channel table, unfolded\<close>

lemma upt_CH_NUM: "[0..<UIPC_CH_NUM] = [0, 1]"
  by (simp add: UIPC_CH_NUM_def upt_rec)

lemma check_task_flags_unfold:
  "uipc_check_task_flags_locked s = check_task_flags_ch (check_task_flags_ch s 0) 1"
  by (simp add: uipc_check_task_flags_locked_def upt_CH_NUM)

lemma read_task_locked_unfold:
  "uipc_read_task_locked s acc =
     (case uipc_check_interrupt_locked s of
        None \<Rightarrow> None
      | Some s1 \<Rightarrow>
          Some (fst (uipc_check_fd_locked
                  (fst (uipc_check_fd_locked (uipc_check_task_flags_locked s1)
                     UIPC_CH_ID_AV_AUDIO (acc UIPC_CH_ID_AV_AUDIO)))
                  UIPC_CH_ID_AV_CTRL (acc UIPC_CH_ID_AV_CTRL))))"
  by (auto simp add: uipc_read_task_locked_def upt_CH_NUM Let_def
      UIPC_CH_ID_AV_AUDIO_def UIPC_CH_ID_AV_CTRL_def split: option.splits)

lemma read_task_iter_unfold:
  "uipc_read_task_iter s sel acc =
     (let s0 = s\<lparr>read_set := active_set s \<inter> select_ready sel\<rparr>
      in if select_ret sel \<le> 0 then Some s0
         else
           case uipc_check_interrupt_locked s0 of
             None \<Rightarrow> None
           | Some s1 \<Rightarrow>
               Some (fst (uipc_check_fd_locked
                       (fst (uipc_check_fd_locked (uipc_check_task_flags_locked s1)
                          UIPC_CH_ID_AV_AUDIO (acc UIPC_CH_ID_AV_AUDIO)))
                       UIPC_CH_ID_AV_CTRL (acc UIPC_CH_ID_AV_CTRL))))"
  by (auto simp add: uipc_read_task_iter_def uipc_read_task_select_def
      uipc_read_task_snapshot_def read_task_locked_unfold Let_def split: option.splits)

lemmas iter_defs =
  uipc_check_interrupt_locked_def uipc_check_fd_locked_def accept_server_socket_def
  SAFE_FD_ISSET_def FD_SET_def MAX_fd_def call_cback_def ch_upd_def Let_def


lemma st_both_listening_eq:
  "st_both_listening =
     \<lparr>tid = 1, running = 1, active_set = {9, 3, 5}, read_set = {}, max_fd = 9, signal_fds = (3, 4),
      ch = [\<lparr>srvfd = 5, fd = - 1, read_poll_tmo_ms = 100, task_evt_flags = 0, cback = 7\<rparr>,
            \<lparr>srvfd = 9, fd = - 1, read_poll_tmo_ms = 100, task_evt_flags = 0, cback = 8\<rparr>],
      sig_queued = 2, close_log = [], cb_log = []\<rparr>"
  by (simp add: st_both_listening_def st_listening_eq UIPC_Open_def uipc_setup_server_locked_def
      create_server_socket_def ok_sock_def ch_upd_def uipc_wakeup_locked_def
      FD_SET_def MAX_fd_def uipc_consts)

subsection \<open>Results of the public calls\<close>

text \<open>
  C3. \<^verbatim>\<open>UIPC_Send\<close> is documented to return true in case of success; it ends in
  \<^verbatim>\<open>return false\<close>. On the connected control channel of the run, a write of three
  bytes that the operating system accepts in full is reported as a failure.
\<close>

theorem UIPC_Send_full_write_reports_false:
  "fd (ch st_connected ! UIPC_CH_ID_AV_CTRL) = 6
   \<and> UIPC_Send st_connected UIPC_CH_ID_AV_CTRL 0 [1, 2, 3] 3 3 = Inr (st_connected, False)"
  by (simp add: UIPC_Send_def st_connected_def uipc_consts)

text \<open>
  C4. \<^verbatim>\<open>UIPC_Open\<close> drops the result of \<^verbatim>\<open>uipc_setup_server_locked\<close>. When
  \<^verbatim>\<open>socket\<close> fails, and likewise when the bind fails and the new socket is closed
  again, the channel is left without a server endpoint and the call returns true.
\<close>

theorem UIPC_Open_failed_socket_reports_true:
  "UIPC_Open st_started UIPC_CH_ID_AV_CTRL 7 100 \<lparr>socket_ret = - 1, bind_ret = 0, listen_ret = 0\<rparr>
     = (st_started, True)
   \<and> srvfd (ch st_started ! UIPC_CH_ID_AV_CTRL) = UIPC_DISCONNECTED
   \<and> UIPC_Open st_started UIPC_CH_ID_AV_CTRL 7 100 \<lparr>socket_ret = 5, bind_ret = - 1, listen_ret = 0\<rparr>
     = (st_started\<lparr>close_log := [5]\<rparr>, True)"
  by (simp add: UIPC_Open_def uipc_setup_server_locked_def create_server_socket_def sys_close_def
      st_started_eq uipc_consts)

text \<open>
  C5. With the id 2, one past the table and not the sentinel for all channels,
  \<^verbatim>\<open>UIPC_Close\<close>, \<^verbatim>\<open>UIPC_Send\<close> and \<^verbatim>\<open>UIPC_Read\<close> read
  \<^verbatim>\<open>uipc_main.ch[2]\<close>, and \<^verbatim>\<open>UIPC_Ioctl\<close> writes its callback or timeout
  field or reads its peer endpoint; only \<^verbatim>\<open>UIPC_Open\<close> and the flush request
  turn the id down before touching the table.
\<close>

theorem UIPC_calls_access_outside_table:
  "UIPC_CH_NUM \<le> 2 \<and> 2 \<noteq> UIPC_CH_ID_ALL
   \<and> UIPC_Close st_listening 2 j = Inl (OutOfBounds 2)
   \<and> UIPC_Send st_listening 2 0 [1] 1 1 = Inl (OutOfBounds 2)
   \<and> UIPC_Read st_listening 2 1 [RdPollTimeout] = Inl (OutOfBounds 2)
   \<and> UIPC_Ioctl st_listening 2 UIPC_REG_CBACK 7 [] = Inl (OutOfBounds 2)
   \<and> UIPC_Ioctl st_listening 2 UIPC_REG_REMOVE_ACTIVE_READSET 0 [] = Inl (OutOfBounds 2)
   \<and> UIPC_Ioctl st_listening 2 UIPC_SET_READ_POLL_TMO 50 [] = Inl (OutOfBounds 2)
   \<and> UIPC_Open st_listening 2 7 100 (ok_sock 9) = (st_listening, False)
   \<and> UIPC_Ioctl st_listening 2 UIPC_REQ_RX_FLUSH 0 [] = Inr (st_listening, False)"
  by (simp add: UIPC_Close_def uipc_close_locked_def UIPC_Send_def UIPC_Read_def UIPC_Ioctl_def
      UIPC_Open_def uipc_flush_locked_def uipc_consts)

text \<open>
  C10. Whenever \<^verbatim>\<open>UIPC_Ioctl\<close> returns, it returns false; and it does return, with
  false, for every request on a channel of the table, provided that the flush loop comes
  to an end.
\<close>

theorem UIPC_Ioctl_returns_false:
  "(\<forall>s' r. UIPC_Ioctl s ch_id request param script = Inr (s', r) \<longrightarrow> r = False)
   \<and> (ch_id < UIPC_CH_NUM \<longrightarrow> uipc_flush_loop script \<noteq> None \<longrightarrow>
        (\<exists>s'. UIPC_Ioctl s ch_id request param script = Inr (s', False)))"
  by (cases request)
     (auto simp: UIPC_Ioctl_def uipc_flush_locked_def uipc_flush_ch_locked_def
           split: option.splits if_splits)

theorem UIPC_Ioctl_returns_false_witness:
  "UIPC_CH_ID_AV_CTRL < UIPC_CH_NUM \<and> uipc_flush_loop [FlRead, FlPollTimeout] \<noteq> None
   \<and> UIPC_Ioctl st_connected UIPC_CH_ID_AV_CTRL UIPC_REQ_RX_FLUSH 0 [FlRead, FlPollTimeout]
       = Inr (st_connected, False)
   \<and> (\<exists>s'. UIPC_Ioctl st_connected UIPC_CH_ID_AV_CTRL UIPC_REG_CBACK 9 [FlRead, FlPollTimeout]
              = Inr (s', False))"
proof -
  have h1: "UIPC_CH_ID_AV_CTRL < UIPC_CH_NUM"
    by (simp add: uipc_consts)
  have h2: "uipc_flush_loop [FlRead, FlPollTimeout] \<noteq> None"
    by simp
  have flush: "UIPC_Ioctl st_connected UIPC_CH_ID_AV_CTRL UIPC_REQ_RX_FLUSH 0 [FlRead, FlPollTimeout]
       = Inr (st_connected, False)"
    by (simp add: UIPC_Ioctl_def uipc_flush_locked_def uipc_flush_ch_locked_def uipc_consts)
  from UIPC_Ioctl_returns_false
    [of st_connected UIPC_CH_ID_AV_CTRL UIPC_REG_CBACK 9 "[FlRead, FlPollTimeout]"] h1 h2
  have "\<exists>s'. UIPC_Ioctl st_connected UIPC_CH_ID_AV_CTRL UIPC_REG_CBACK 9 [FlRead, FlPollTimeout]
              = Inr (s', False)"
    by blast
  with h1 h2 flush show ?thesis
    by blast
qed

subsection \<open>The loop of \<^verbatim>\<open>UIPC_Read\<close>\<close>

lemma sint_nonneg_uint:
  fixes len :: "32 word"
  assumes "0 \<le> sint len"
  shows "uint len = sint len"
proof -
  have "sint len < 2 ^ 32"
    using sint_lt [of len] by simp
  then show ?thesis
    using assms by (simp add: uint_sint [of len] take_bit_int_eq_self)
qed

text \<open>Inside the loop the length asked of \<^verbatim>\<open>recv\<close> is what is still missing.\<close>

lemma requested_eq:
  fixes len :: "32 word"
  assumes "0 \<le> n" "n < sint len"
  shows "unat (len - word_of_int n) = nat (sint len - n)"
proof -
  have su: "uint len = sint len"
    using assms by (simp add: sint_nonneg_uint)
  have lt: "uint len < 2 ^ 32"
    using uint_lt2p [of len] by simp
  have un: "uint (word_of_int n :: 32 word) = n"
    using assms su lt by (simp add: uint_word_of_int)
  have le: "(word_of_int n :: 32 word) \<le> len"
    using assms su un by (simp add: word_le_def)
  have "uint (len - word_of_int n) = uint len - n"
    using le un by (simp add: uint_sub_if' word_le_def)
  then show ?thesis
    using su by (simp add: unat_eq_nat_uint)
qed

lemma read_loop_done:
  "\<not> n < sint len \<Longrightarrow> uipc_read_loop s ch_id len n buf script = Inr (s, word_of_int n, buf)"
  by (subst uipc_read_loop.simps) simp

lemma read_loop_timeout:
  "n < sint len \<Longrightarrow>
   uipc_read_loop s ch_id len n buf (RdPollTimeout # rest) = Inr (s, word_of_int n, buf)"
  by (subst uipc_read_loop.simps) simp

lemma close_locked_eq:
  "ch_id < UIPC_CH_NUM \<Longrightarrow> uipc_close_locked s ch_id = Inr (schedule_close s ch_id)"
  by (simp add: uipc_close_locked_def schedule_close_def ch_upd_def uipc_wakeup_locked_def)

lemma read_loop_hangup:
  assumes "n < sint len" "ch_id < UIPC_CH_NUM" "hang = RdPollHup \<or> hang = RdRecv []"
  shows "uipc_read_loop s ch_id len n buf (hang # rest) = Inr (schedule_close s ch_id, 0, buf)"
  using assms
  by (subst uipc_read_loop.simps) (auto simp: close_locked_eq)

lemma read_loop_recv:
  assumes "0 \<le> n" "n < sint len" "bs \<noteq> []"
  shows "uipc_read_loop s ch_id len n buf (RdRecv bs # rest) =
     uipc_read_loop s ch_id len (n + int (min (length bs) (nat (sint len - n))))
       (buf @ take (nat (sint len - n)) bs) rest"
  using assms
  by (subst uipc_read_loop.simps) (simp add: requested_eq Let_def)

text \<open>A run of receives that all deliver data: either they fill the request, or the
  loop goes on with everything they delivered.\<close>

lemma read_loop_data:
  assumes "0 \<le> n" "n \<le> sint len" "\<forall>bs\<in>set chunks. bs \<noteq> []"
  shows "uipc_read_loop s ch_id len n buf (map RdRecv chunks @ rest) =
     (if sint len \<le> n + int (length (concat chunks))
      then Inr (s, len, buf @ take (nat (sint len - n)) (concat chunks))
      else uipc_read_loop s ch_id len (n + int (length (concat chunks))) (buf @ concat chunks) rest)"
  using assms
proof (induction chunks arbitrary: n buf)
  case Nil
  then show ?case
    by (auto simp: read_loop_done)
next
  case (Cons bs cs)
  show ?case
  proof (cases "n < sint len")
    case False
    with Cons.prems have "n = sint len"
      by simp
    then show ?thesis
      by (simp add: read_loop_done)
  next
    case True
    define r where "r = nat (sint len - n)"
    have bs: "bs \<noteq> []" and cs: "\<forall>bs\<in>set cs. bs \<noteq> []"
      using Cons.prems by simp_all
    have step: "uipc_read_loop s ch_id len n buf (map RdRecv (bs # cs) @ rest) =
        uipc_read_loop s ch_id len (n + int (min (length bs) r)) (buf @ take r bs)
          (map RdRecv cs @ rest)"
      using read_loop_recv [OF Cons.prems(1) True bs] by (simp add: r_def)
    have n': "0 \<le> n + int (min (length bs) r)" "n + int (min (length bs) r) \<le> sint len"
      using Cons.prems True by (simp_all add: r_def)
    note ih = Cons.IH [OF n' cs, of "buf @ take r bs"]
    show ?thesis
    proof (cases "r \<le> length bs")
      case True
      have e1: "n + int (min (length bs) r) = sint len"
        using True \<open>n < sint len\<close> by (simp add: r_def min_def)
      have c1: "sint len \<le> n + int (length (concat (bs # cs)))"
        using True by (simp add: r_def)
      have t1: "take (nat (sint len - n)) (concat (bs # cs)) = take r bs"
        using True by (simp add: r_def)
      have "uipc_read_loop s ch_id len n buf (map RdRecv (bs # cs) @ rest) =
          Inr (s, len, buf @ take r bs)"
        unfolding step e1 by (simp add: read_loop_done)
      then show ?thesis
        using c1 t1 by simp
    next
      case False
      then have m: "min (length bs) r = length bs" "take r bs = bs"
        by simp_all
      have r': "nat (sint len - (n + int (length bs))) = r - length bs"
        using False by (simp add: r_def)
      have t2: "take (nat (sint len - n)) (concat (bs # cs)) =
          bs @ take (r - length bs) (concat cs)"
        using False by (simp add: r_def)
      have l2: "n + int (length (concat (bs # cs))) =
          n + int (length bs) + int (length (concat cs))"
        by simp
      show ?thesis
        unfolding step m ih [unfolded m] r' t2 l2 by simp
    qed
  qed
qed

lemma unat_count:
  fixes len :: "32 word"
  assumes "int k < sint len"
  shows "unat (of_nat k :: 32 word) = k" and "k < unat len"
proof -
  have su: "uint len = sint len"
    using assms by (simp add: sint_nonneg_uint)
  have lt: "uint len < 2 ^ 32"
    using uint_lt2p [of len] by simp
  have "k < 2 ^ 32"
    using assms su lt by simp
  then show "unat (of_nat k :: 32 word) = k"
    by (simp add: unat_of_nat)
  show "k < unat len"
    using assms su by (simp add: unat_eq_nat_uint)
qed

text \<open>
  C8, as the code has it. On a connected channel of the table, with receives that deliver
  data: when a wait times out before the request is filled, \<^verbatim>\<open>UIPC_Read\<close> returns
  the number of bytes collected so far, a value below the requested length, and leaves the
  state alone; when the data fills a request of at most \<open>2\<^sup>3\<^sup>1 - 1\<close> bytes, it returns
  the requested length, having taken no more than that; and a request of zero or of
  \<open>2\<^sup>3\<^sup>1\<close> bytes or more, which \<^verbatim>\<open>(int)len\<close> shows as not positive, returns 0 at
  once whatever is there to read.
\<close>

theorem UIPC_Read_timeout_or_full:
  assumes "ch_id < UIPC_CH_NUM" and "fd (ch s ! ch_id) \<noteq> UIPC_DISCONNECTED"
    and "[] \<notin> set chunks"
  shows "(int (length (concat chunks)) < sint len \<longrightarrow>
            UIPC_Read s ch_id len (map RdRecv chunks @ RdPollTimeout # rest)
              = Inr (s, of_nat (length (concat chunks)), concat chunks)
            \<and> unat (of_nat (length (concat chunks)) :: 32 word) = length (concat chunks)
            \<and> length (concat chunks) < unat len)
       \<and> (0 < sint len \<and> sint len \<le> int (length (concat chunks)) \<longrightarrow>
            UIPC_Read s ch_id len (map RdRecv chunks @ rest)
              = Inr (s, len, take (unat len) (concat chunks)))
       \<and> (sint len \<le> 0 \<longrightarrow> UIPC_Read s ch_id len script = Inr (s, 0, []))"
proof -
  have data: "\<forall>bs\<in>set chunks. bs \<noteq> []"
    using assms(3) by auto
  note from0 = read_loop_data [where n = 0 and buf = "[]", simplified]
  have timeout:
    "UIPC_Read s ch_id len (map RdRecv chunks @ RdPollTimeout # rest)
       = Inr (s, of_nat (length (concat chunks)), concat chunks)
     \<and> unat (of_nat (length (concat chunks)) :: 32 word) = length (concat chunks)
     \<and> length (concat chunks) < unat len"
    if lt: "int (length (concat chunks)) < sint len"
  proof -
    have "UIPC_Read s ch_id len (map RdRecv chunks @ RdPollTimeout # rest) =
        uipc_read_loop s ch_id len (int (length (concat chunks))) (concat chunks)
          (RdPollTimeout # rest)"
      using assms(1,2) data lt by (simp add: UIPC_Read_def from0)
    also have "\<dots> = Inr (s, word_of_int (int (length (concat chunks))), concat chunks)"
      using lt by (rule read_loop_timeout)
    finally show ?thesis
      using unat_count [OF lt] by simp
  qed
  have full:
    "UIPC_Read s ch_id len (map RdRecv chunks @ rest)
       = Inr (s, len, take (unat len) (concat chunks))"
    if "0 < sint len \<and> sint len \<le> int (length (concat chunks))"
  proof -
    have "nat (sint len) = unat len"
      using that by (simp add: unat_eq_nat_uint sint_nonneg_uint)
    then show ?thesis
      using assms(1,2) data that by (simp add: UIPC_Read_def from0)
  qed
  have none: "UIPC_Read s ch_id len script = Inr (s, 0, [])" if "sint len \<le> 0"
    using assms that by (simp add: UIPC_Read_def read_loop_done)
  from timeout full none show ?thesis
    by blast
qed

theorem UIPC_Read_timeout_or_full_witness:
  "UIPC_CH_ID_AV_CTRL < UIPC_CH_NUM
   \<and> fd (ch st_connected ! UIPC_CH_ID_AV_CTRL) \<noteq> UIPC_DISCONNECTED
   \<and> [] \<notin> set [[1, 2], [3 :: 8 word]]
   \<and> UIPC_Read st_connected UIPC_CH_ID_AV_CTRL 4 [RdRecv [1, 2], RdRecv [3], RdPollTimeout]
        = Inr (st_connected, 3, [1, 2, 3])
   \<and> UIPC_Read st_connected UIPC_CH_ID_AV_CTRL 2 [RdRecv [1, 2], RdRecv [3]]
        = Inr (st_connected, 2, [1, 2])
   \<and> UIPC_Read st_connected UIPC_CH_ID_AV_CTRL 0 [RdRecv [1, 2], RdRecv [3]]
        = Inr (st_connected, 0, [])"
proof -
  have h1: "UIPC_CH_ID_AV_CTRL < UIPC_CH_NUM"
    by (simp add: uipc_consts)
  have h2: "fd (ch st_connected ! UIPC_CH_ID_AV_CTRL) \<noteq> UIPC_DISCONNECTED"
    by (simp add: st_connected_def uipc_consts)
  have h3: "[] \<notin> set [[1, 2], [3 :: 8 word]]"
    by simp
  note t = UIPC_Read_timeout_or_full [OF h1 h2 h3]
  have a: "UIPC_Read st_connected UIPC_CH_ID_AV_CTRL 4 [RdRecv [1, 2], RdRecv [3], RdPollTimeout]
        = Inr (st_connected, 3, [1, 2, 3])"
    using t [of 4 "[]" "[]"] by simp
  have b: "UIPC_Read st_connected UIPC_CH_ID_AV_CTRL 2 [RdRecv [1, 2], RdRecv [3]]
        = Inr (st_connected, 2, [1, 2])"
    using t [of 2 "[]" "[]"] by simp
  have c: "UIPC_Read st_connected UIPC_CH_ID_AV_CTRL 0 [RdRecv [1, 2], RdRecv [3]]
        = Inr (st_connected, 0, [])"
    using t [of 0 "[]" "[RdRecv [1, 2], RdRecv [3]]"] by simp
  from h1 h2 h3 a b c show ?thesis
    by blast
qed

text \<open>C8 as stated fails for a request of \<open>2\<^sup>3\<^sup>1\<close> bytes: with data at hand and no
  timeout, \<^verbatim>\<open>UIPC_Read\<close> returns 0 without reading.\<close>

theorem UIPC_Read_huge_request_returns_zero:
  "UIPC_Read st_connected UIPC_CH_ID_AV_CTRL 0x80000000 [RdRecv [1, 2], RdRecv [3]]
     = Inr (st_connected, 0, [])
   \<and> unat (0x80000000 :: 32 word) = 2147483648"
  by (simp add: UIPC_Read_def read_loop_done st_connected_def uipc_consts)
subsection \<open>Deferred teardown\<close>

lemma check_task_flags_ch_length:
  assumes "i < UIPC_CH_NUM" "length (ch t) = UIPC_CH_NUM"
  shows "length (ch (check_task_flags_ch t i)) = UIPC_CH_NUM"
  using assms by (simp add: check_task_flags_ch_def close_ch_eq ch_upd_def)

lemma check_task_flags_ch_other:
  assumes "i < UIPC_CH_NUM" "length (ch t) = UIPC_CH_NUM" "j \<noteq> i"
  shows "ch (check_task_flags_ch t i) ! j = ch t ! j"
  using assms by (simp add: check_task_flags_ch_def close_ch_eq ch_upd_def)

lemma check_task_flags_ch_close_log:
  assumes "i < UIPC_CH_NUM" "length (ch t) = UIPC_CH_NUM"
  shows "set (close_log t) \<subseteq> set (close_log (check_task_flags_ch t i))"
  using assms by (auto simp add: check_task_flags_ch_def close_ch_eq ch_upd_def)

lemma check_task_flags_ch_flagged:
  assumes "i < UIPC_CH_NUM" "length (ch t) = UIPC_CH_NUM"
    and "task_evt_flags (ch t ! i) AND UIPC_TASK_FLAG_DISCONNECT_CHAN \<noteq> 0"
  shows "srvfd (ch (check_task_flags_ch t i) ! i) = UIPC_DISCONNECTED"
    and "fd (ch (check_task_flags_ch t i) ! i) = UIPC_DISCONNECTED"
    and "close_log (check_task_flags_ch t i) = close_log t @ present_fds (ch t ! i)"
  using assms by (simp_all add: check_task_flags_ch_def close_ch_eq ch_upd_def present_fds_def)

text \<open>A channel whose disconnect flag is set is torn down by the next pass of
  \<^verbatim>\<open>uipc_check_task_flags_locked\<close>.\<close>

lemma check_task_flags_tears_down:
  assumes i: "i < UIPC_CH_NUM" and len: "length (ch t) = UIPC_CH_NUM"
    and flag: "task_evt_flags (ch t ! i) AND UIPC_TASK_FLAG_DISCONNECT_CHAN \<noteq> 0"
  shows "srvfd (ch (uipc_check_task_flags_locked t) ! i) = UIPC_DISCONNECTED"
    and "fd (ch (uipc_check_task_flags_locked t) ! i) = UIPC_DISCONNECTED"
    and "set (present_fds (ch t ! i)) \<subseteq> set (close_log (uipc_check_task_flags_locked t))"
proof -
  have n0: "0 < UIPC_CH_NUM" and n1: "1 < UIPC_CH_NUM"
    by (simp_all add: UIPC_CH_NUM_def)
  define t0 where "t0 = check_task_flags_ch t 0"
  have len0: "length (ch t0) = UIPC_CH_NUM"
    unfolding t0_def by (rule check_task_flags_ch_length [OF n0 len])
  have all: "uipc_check_task_flags_locked t = check_task_flags_ch t0 1"
    by (simp add: check_task_flags_unfold t0_def)
  from i consider "i = 0" | "i = 1"
    by (auto simp: UIPC_CH_NUM_def less_2_cases_iff)
  then have "srvfd (ch (uipc_check_task_flags_locked t) ! i) = UIPC_DISCONNECTED
     \<and> fd (ch (uipc_check_task_flags_locked t) ! i) = UIPC_DISCONNECTED
     \<and> set (present_fds (ch t ! i)) \<subseteq> set (close_log (uipc_check_task_flags_locked t))"
  proof cases
    case 1
    have a: "srvfd (ch t0 ! 0) = UIPC_DISCONNECTED" "fd (ch t0 ! 0) = UIPC_DISCONNECTED"
      "close_log t0 = close_log t @ present_fds (ch t ! 0)"
      unfolding t0_def using check_task_flags_ch_flagged [OF n0 len] flag 1 by simp_all
    have b: "ch (check_task_flags_ch t0 1) ! 0 = ch t0 ! 0"
      by (rule check_task_flags_ch_other [OF n1 len0]) simp
    have c: "set (close_log t0) \<subseteq> set (close_log (check_task_flags_ch t0 1))"
      by (rule check_task_flags_ch_close_log [OF n1 len0])
    show ?thesis
      using a b c unfolding all 1 by auto
  next
    case 2
    have same: "ch t0 ! 1 = ch t ! 1"
      unfolding t0_def by (rule check_task_flags_ch_other [OF n0 len]) simp
    have "srvfd (ch (check_task_flags_ch t0 1) ! 1) = UIPC_DISCONNECTED"
      "fd (ch (check_task_flags_ch t0 1) ! 1) = UIPC_DISCONNECTED"
      "close_log (check_task_flags_ch t0 1) = close_log t0 @ present_fds (ch t0 ! 1)"
      using check_task_flags_ch_flagged [OF n1 len0] flag 2 same by simp_all
    then show ?thesis
      unfolding all 2 same by simp
  qed
  then show "srvfd (ch (uipc_check_task_flags_locked t) ! i) = UIPC_DISCONNECTED"
    and "fd (ch (uipc_check_task_flags_locked t) ! i) = UIPC_DISCONNECTED"
    and "set (present_fds (ch t ! i)) \<subseteq> set (close_log (uipc_check_task_flags_locked t))"
    by simp_all
qed

text \<open>
  C2, as the code has it. When \<^verbatim>\<open>UIPC_Read\<close> meets a hangup or invalid-descriptor
  indication, or a receive of zero bytes, on a connected channel with its server endpoint
  in place, it returns 0 with the teardown only scheduled: the disconnect flag of the
  channel is set and one wakeup byte is written, while both endpoints stay in the table and
  in the active set, nothing is closed and no callback is called. The teardown is done by
  the next pass of the read task over the task flags, which closes both endpoints.
\<close>

theorem UIPC_Read_hangup_schedules_teardown:
  assumes "ch_id < UIPC_CH_NUM" and "length (ch s) = UIPC_CH_NUM"
    and "fd (ch s ! ch_id) \<noteq> UIPC_DISCONNECTED" and "srvfd (ch s ! ch_id) \<noteq> UIPC_DISCONNECTED"
    and "[] \<notin> set chunks" and "int (length (concat chunks)) < sint len"
    and "hang = RdPollHup \<or> hang = RdRecv []"
  shows "\<exists>s'. UIPC_Read s ch_id len (map RdRecv chunks @ hang # rest) = Inr (s', 0, concat chunks)
      \<and> srvfd (ch s' ! ch_id) = srvfd (ch s ! ch_id)
      \<and> fd (ch s' ! ch_id) = fd (ch s ! ch_id)
      \<and> active_set s' = active_set s
      \<and> close_log s' = close_log s
      \<and> cb_log s' = cb_log s
      \<and> task_evt_flags (ch s' ! ch_id) AND UIPC_TASK_FLAG_DISCONNECT_CHAN \<noteq> 0
      \<and> sig_queued s' = sig_queued s + 1
      \<and> srvfd (ch (uipc_check_task_flags_locked s') ! ch_id) = UIPC_DISCONNECTED
      \<and> fd (ch (uipc_check_task_flags_locked s') ! ch_id) = UIPC_DISCONNECTED
      \<and> {srvfd (ch s ! ch_id), fd (ch s ! ch_id)}
           \<subseteq> set (close_log (uipc_check_task_flags_locked s'))"
proof -
  define s' where "s' = schedule_close s ch_id"
  have data: "\<forall>bs\<in>set chunks. bs \<noteq> []"
    using assms(5) by auto
  have "UIPC_Read s ch_id len (map RdRecv chunks @ hang # rest) =
      uipc_read_loop s ch_id len (int (length (concat chunks))) (concat chunks) (hang # rest)"
    using assms(1,3,6) data
    by (simp add: UIPC_Read_def read_loop_data [where n = 0 and buf = "[]", simplified])
  also have "\<dots> = Inr (s', 0, concat chunks)"
    unfolding s'_def using assms(6,1,7) by (rule read_loop_hangup)
  finally have ret: "UIPC_Read s ch_id len (map RdRecv chunks @ hang # rest) =
      Inr (s', 0, concat chunks)" .
  have len': "length (ch s') = UIPC_CH_NUM"
    using assms by (simp add: s'_def schedule_close_def)
  have c': "ch s' ! ch_id = (ch s ! ch_id)
      \<lparr>task_evt_flags := task_evt_flags (ch s ! ch_id) OR UIPC_TASK_FLAG_DISCONNECT_CHAN\<rparr>"
    using assms by (simp add: s'_def schedule_close_def)
  have flag: "task_evt_flags (ch s' ! ch_id) AND UIPC_TASK_FLAG_DISCONNECT_CHAN \<noteq> 0"
    unfolding c' by (simp add: UIPC_TASK_FLAG_DISCONNECT_CHAN_def word_ao_absorbs)
  have same: "active_set s' = active_set s" "close_log s' = close_log s" "cb_log s' = cb_log s"
    "sig_queued s' = sig_queued s + 1"
    using assms by (simp_all add: s'_def schedule_close_def)
  have pres: "present_fds (ch s' ! ch_id) = [srvfd (ch s ! ch_id), fd (ch s ! ch_id)]"
    unfolding c' using assms by (simp add: present_fds_def)
  note down = check_task_flags_tears_down [OF assms(1) len' flag]
  show ?thesis
    using ret same flag down unfolding pres by (intro exI [of _ s']) (simp add: c')
qed

theorem UIPC_Read_hangup_schedules_teardown_witness:
  "UIPC_CH_ID_AV_CTRL < UIPC_CH_NUM \<and> length (ch st_connected) = UIPC_CH_NUM
   \<and> fd (ch st_connected ! UIPC_CH_ID_AV_CTRL) \<noteq> UIPC_DISCONNECTED
   \<and> srvfd (ch st_connected ! UIPC_CH_ID_AV_CTRL) \<noteq> UIPC_DISCONNECTED
   \<and> [] \<notin> set [[1 :: 8 word]] \<and> int (length (concat [[1 :: 8 word]])) < sint (4 :: 32 word)
   \<and> (\<exists>s'. UIPC_Read st_connected UIPC_CH_ID_AV_CTRL 4 [RdRecv [1], RdPollHup] = Inr (s', 0, [1])
          \<and> fd (ch s' ! UIPC_CH_ID_AV_CTRL) = 6
          \<and> close_log s' = []
          \<and> fd (ch (uipc_check_task_flags_locked s') ! UIPC_CH_ID_AV_CTRL) = UIPC_DISCONNECTED
          \<and> {5, 6} \<subseteq> set (close_log (uipc_check_task_flags_locked s')))"
proof -
  have h1: "UIPC_CH_ID_AV_CTRL < UIPC_CH_NUM"
    by (simp add: uipc_consts)
  have h2: "length (ch st_connected) = UIPC_CH_NUM"
    by (simp add: st_connected_def uipc_consts)
  have h3: "fd (ch st_connected ! UIPC_CH_ID_AV_CTRL) \<noteq> UIPC_DISCONNECTED"
    and h4: "srvfd (ch st_connected ! UIPC_CH_ID_AV_CTRL) \<noteq> UIPC_DISCONNECTED"
    by (simp_all add: st_connected_def uipc_consts)
  have h5: "[] \<notin> set [[1 :: 8 word]]"
    and h6: "int (length (concat [[1 :: 8 word]])) < sint (4 :: 32 word)"
    by simp_all
  have v: "fd (ch st_connected ! UIPC_CH_ID_AV_CTRL) = 6"
    "srvfd (ch st_connected ! UIPC_CH_ID_AV_CTRL) = 5" "close_log st_connected = []"
    by (simp_all add: st_connected_def uipc_consts)
  from UIPC_Read_hangup_schedules_teardown
    [OF h1 h2 h3 h4 h5 h6, of RdPollHup "[]"]
  obtain s' where "UIPC_Read st_connected UIPC_CH_ID_AV_CTRL 4 [RdRecv [1], RdPollHup] = Inr (s', 0, [1])
          \<and> fd (ch s' ! UIPC_CH_ID_AV_CTRL) = 6
          \<and> close_log s' = []
          \<and> fd (ch (uipc_check_task_flags_locked s') ! UIPC_CH_ID_AV_CTRL) = UIPC_DISCONNECTED
          \<and> {5, 6} \<subseteq> set (close_log (uipc_check_task_flags_locked s'))"
    unfolding v by auto
  with h1 h2 h3 h4 h5 h6 show ?thesis
    by blast
qed

text \<open>C2 as stated fails: after a hangup on the connected control channel of the run,
  \<^verbatim>\<open>UIPC_Read\<close> has returned 0 and both endpoints are still open, in the table and
  in the active set; only the disconnect flag is set.\<close>

theorem UIPC_Read_hangup_leaves_endpoints_open:
  "UIPC_Read st_connected UIPC_CH_ID_AV_CTRL 4 [RdPollHup] = Inr (st_hangup, 0, [])
   \<and> srvfd (ch st_hangup ! UIPC_CH_ID_AV_CTRL) = 5
   \<and> fd (ch st_hangup ! UIPC_CH_ID_AV_CTRL) = 6
   \<and> {5, 6} \<subseteq> active_set st_hangup
   \<and> close_log st_hangup = []"
  by (simp add: UIPC_Read_def uipc_read_loop.simps uipc_close_locked_def ch_upd_def
      uipc_wakeup_locked_def st_connected_def st_hangup_def uipc_consts)

subsection \<open>The wakeup socket pair\<close>

lemma wakeups_eq: "(uipc_wakeup_locked ^^ k) s = s\<lparr>sig_queued := sig_queued s + k\<rparr>"
  by (induction k) (simp_all add: uipc_wakeup_locked_def)

text \<open>
  C9, as the code has it. When the read end of the wakeup pair is reported ready, the
  drain receives one byte and returns: after \<open>k + 1\<close> wakeups and one drain, the bytes
  of \<open>k\<close> wakeups are still queued.
\<close>

theorem check_interrupt_takes_one_byte:
  assumes "SAFE_FD_ISSET (fst (signal_fds s)) (read_set s)"
  shows "uipc_check_interrupt_locked ((uipc_wakeup_locked ^^ Suc k) s)
           = Some ((uipc_wakeup_locked ^^ k) s)
       \<and> sig_queued ((uipc_wakeup_locked ^^ k) s) = sig_queued s + k"
  using assms unfolding wakeups_eq by (simp add: uipc_check_interrupt_locked_def)

theorem check_interrupt_takes_one_byte_witness:
  "SAFE_FD_ISSET (fst (signal_fds st_connected)) (read_set st_connected)
   \<and> uipc_check_interrupt_locked (uipc_wakeup_locked (uipc_wakeup_locked st_connected))
       = Some (uipc_wakeup_locked st_connected)
   \<and> sig_queued (uipc_wakeup_locked st_connected) = 1"
proof -
  have h: "SAFE_FD_ISSET (fst (signal_fds st_connected)) (read_set st_connected)"
    by (simp add: SAFE_FD_ISSET_def st_connected_def)
  have q: "sig_queued st_connected = 0"
    by (simp add: st_connected_def)
  show ?thesis
    using h check_interrupt_takes_one_byte [OF h, of 1] by (simp add: q)
qed

text \<open>C9 as stated fails: with the two wakeup bytes of the two opens queued, a turn of
  the read task in which the wakeup socket is ready leaves one of them behind.\<close>

theorem read_task_iter_leaves_wakeup_byte:
  "sig_queued st_both_listening = 2
   \<and> map_option sig_queued
        (uipc_read_task_iter st_both_listening \<lparr>select_ret = 1, select_ready = {3}\<rparr>
           (\<lambda>i. \<lparr>poll_ret = 0, accept_ret = - 1\<rparr>)) = Some 1"
  by (simp add: read_task_iter_unfold check_task_flags_unfold check_task_flags_ch_def
      st_both_listening_eq iter_defs uipc_consts)

subsection \<open>The body of the read task\<close>










subsection \<open>The active set\<close>















































end
